theory Spec2Isabelle
  imports Main
begin

section \<open>The User entity of backend/src/user/user.entity.ts\<close>

text \<open>
  A \<open>Date\<close> is a point on the clock's time line, kept as an integer. A column that is
  declared \<open>nullable: true\<close> is an \<open>option\<close>; the required columns are plain values.
  The field \<open>id\<close> of the class is written \<open>id'\<close>, because \<open>id\<close> is the identity
  function of HOL. Strings are byte strings: a password is the bytes that bcrypt reads
  of it, and for ASCII text bytes and characters are the same.
\<close>

type_synonym date = int

record User =
  id' :: int
  createdAt :: date
  updatedAt :: date
  publicId :: string
  displayName :: string
  confirmedEmail :: "string option"
  pendingEmail :: string
  emailConfirmationToken :: "string option"
  emailConfirmationRequestedAt :: date
  emailConfirmationCompletedAt :: "date option"
  securityOperationPerformedAt :: "date option"
  passwordHash :: "string option"

text \<open>
  Modelled from the spec: the field \<open>phoneNumber\<close> of the spec's AccountRecord
  (section 3, "normalized international-format string, nullable for legacy records") is
  not declared in user.entity.ts. It is carried in the extension slot of the record, so
  every method of \<open>User\<close> below, written over \<open>'a User_scheme\<close>, runs unchanged on a
  record that has it.
\<close>

record AccountRecord = User +
  phoneNumber :: "string option"

text \<open>
  The results the operations can end with. \<open>Error msg\<close> is a JavaScript \<open>Error\<close>
  thrown by the bcrypt package, the only failure a method of the class can end with.
  \<open>WeakPassword\<close>, \<open>InvalidOrExpiredToken\<close> and \<open>InvalidPhoneNumber\<close> are the
  names of section 7 of the spec; no line of user.entity.ts constructs them.
\<close>

datatype error =
    WeakPassword
  | InvalidOrExpiredToken
  | InvalidPhoneNumber
  | Error string

subsection \<open>Class constants\<close>

definition EMAIL_CONFIRMATION_TIMEOUT_SECONDS :: int where
  "EMAIL_CONFIRMATION_TIMEOUT_SECONDS = 3 * 24 * 3600"

definition SALT_ROUNDS :: nat where
  "SALT_ROUNDS = 10"

subsection \<open>The bcrypt package, as the class sees it\<close>

text \<open>
  The class imports the npm package bcrypt and calls two of its functions through
  promises. The package is not part of the repository, so it is a parameter of the
  methods: \<open>bcrypt_hash lib data rounds\<close> is what \<open>await bcrypt.hash(data, rounds)\<close>
  gives and \<open>bcrypt_compare lib data hash\<close> what \<open>await bcrypt.compare(data, hash)\<close>
  gives, \<open>Inl msg\<close> standing for a promise rejected with \<open>Error(msg)\<close>. The random
  salt of a call is part of the parameter. The second argument of \<open>compare\<close> is the
  field \<open>passwordHash\<close> as it is, so it may be null.
\<close>

record bcrypt =
  bcrypt_hash :: "string \<Rightarrow> nat \<Rightarrow> string + string"
  bcrypt_compare :: "string \<Rightarrow> string option \<Rightarrow> string + bool"

subsection \<open>Methods\<close>

text \<open>
  A method takes \<open>this\<close> and returns its result together with \<open>this\<close> after the call.
  An \<open>async\<close> method whose awaited promise is rejected ends with that error, and the
  statements after the \<open>await\<close> do not run.
\<close>

definition canLogIn :: "'a User_scheme \<Rightarrow> bool \<times> 'a User_scheme" where
  "canLogIn this = (emailConfirmationCompletedAt this \<noteq> None, this)"

text \<open>
  \<open>now\<close> is the value of \<open>new Date()\<close> on line 81, read from the clock after the
  hash has been awaited.
\<close>

definition resetPassword ::
  "bcrypt \<Rightarrow> date \<Rightarrow> string \<Rightarrow> 'a User_scheme \<Rightarrow> (error + unit) \<times> 'a User_scheme" where
  "resetPassword lib now newPassword this =
     (case bcrypt_hash lib newPassword SALT_ROUNDS of
        Inl msg \<Rightarrow> (Inl (Error msg), this)
      | Inr hash \<Rightarrow>
          (Inr (), this\<lparr>passwordHash := Some hash,
                        securityOperationPerformedAt := Some now\<rparr>))"

definition isRightPassword ::
  "bcrypt \<Rightarrow> string \<Rightarrow> 'a User_scheme \<Rightarrow> (error + bool) \<times> 'a User_scheme" where
  "isRightPassword lib password this =
     (case bcrypt_compare lib password (passwordHash this) of
        Inl msg \<Rightarrow> (Inl (Error msg), this)
      | Inr match \<Rightarrow> (Inr match, this))"

subsection \<open>The published bcrypt package\<close>

text \<open>
  The npm package bcrypt, to the extent the class depends on it. Its JavaScript entry
  points check their arguments and hand over to a native binding; the binding is the
  parameter \<open>b\<close>: \<open>gen_salt b rounds\<close> is the setting string with a fresh salt, and
  \<open>encrypt b key setting\<close> is the digest of the key bytes under the salt and cost
  that \<open>setting\<close> begins with (a digest begins with its own setting, so it can stand
  in that place). Two documented behaviours of the package are written out:
  \<^item> \<open>compare(data, hash)\<close> rejects with \<open>Error('data and hash arguments required')\<close>
    when \<open>hash\<close> is null or undefined;
  \<^item> only the first 72 bytes of the data are used, in \<open>hash\<close> and in \<open>compare\<close>.
  \<open>hash\<close> is called by the class with a string and a number only, which the package
  accepts. This is the package from release 5.0.0 on; earlier releases also let the
  length of an input of 256 bytes or more wrap around.
\<close>

record bindings =
  gen_salt :: "nat \<Rightarrow> string"
  encrypt :: "string \<Rightarrow> string \<Rightarrow> string"

definition node_bcrypt :: "bindings \<Rightarrow> bcrypt" where
  "node_bcrypt b =
     \<lparr>bcrypt_hash = (\<lambda>data rounds. Inr (encrypt b (take 72 data) (gen_salt b rounds))),
      bcrypt_compare = (\<lambda>data hash.
         case hash of
           None \<Rightarrow> Inl ''data and hash arguments required''
         | Some h \<Rightarrow> Inr (encrypt b (take 72 data) h = h))\<rparr>"

text \<open>
  A binding to run the model on concrete inputs. It has the shape of the native one (a
  29-character setting, a digest that begins with its setting) and nothing of Blowfish:
  the rest of the digest is the key itself.
\<close>

definition plain_bindings :: bindings where
  "plain_bindings =
     \<lparr>gen_salt = (\<lambda>rounds. ''$2b$10$......................''),
      encrypt = (\<lambda>key setting. take 29 setting @ key)\<rparr>"

subsection \<open>Records to run the methods on\<close>

text \<open>
  The user the README creates with
  \<open>addUser.ts --email=admin@example.com --displayName=ImperatorFuriosa --password=admin\<close>,
  before a password is set, and a freshly registered user whose email is not confirmed.
\<close>

definition admin_user :: User where
  "admin_user =
     \<lparr>id' = 1, createdAt = 1600000000, updatedAt = 1600000000,
      publicId = ''7f3c2a9e-0000-4000-8000-000000000001'',
      displayName = ''ImperatorFuriosa'',
      confirmedEmail = Some ''admin@example.com'',
      pendingEmail = ''admin@example.com'',
      emailConfirmationToken = None,
      emailConfirmationRequestedAt = 1600000000,
      emailConfirmationCompletedAt = Some 1600000000,
      securityOperationPerformedAt = None,
      passwordHash = None\<rparr>"

definition pending_user :: User where
  "pending_user =
     \<lparr>id' = 2, createdAt = 1600000000, updatedAt = 1600000000,
      publicId = ''7f3c2a9e-0000-4000-8000-000000000002'',
      displayName = ''Nux'',
      confirmedEmail = None,
      pendingEmail = ''nux@example.com'',
      emailConfirmationToken = Some ''q7RkT2mZx9LpV4cB'',
      emailConfirmationRequestedAt = 1600000000,
      emailConfirmationCompletedAt = None,
      securityOperationPerformedAt = None,
      passwordHash = None\<rparr>"

section \<open>Operations the spec describes and user.entity.ts does not contain\<close>

text \<open>
  Modelled from the spec: the confirmation-state transition (section 4.1,
  \<open>confirmEmail(token) -> success | InvalidOrExpiredToken\<close> in section 6) has no code
  in user.entity.ts, which only declares the fields and the timeout it reads. In the
  spec's words it "succeeds only if the supplied token matches emailConfirmationToken
  exactly and now - emailConfirmationRequestedAt <= EMAIL_CONFIRMATION_TIMEOUT_SECONDS;
  on success sets confirmedEmail = pendingEmail, clears the token, sets
  emailConfirmationCompletedAt = now. On token mismatch or expiry, fails without
  mutating state", with the one error \<open>InvalidOrExpiredToken\<close>. Timestamps count
  seconds here, as the comparison with the timeout requires.
\<close>

definition confirmEmail ::
  "date \<Rightarrow> string \<Rightarrow> 'a User_scheme \<Rightarrow> (error + unit) \<times> 'a User_scheme" where
  "confirmEmail now token this =
     (if emailConfirmationToken this = Some token
         \<and> now - emailConfirmationRequestedAt this \<le> EMAIL_CONFIRMATION_TIMEOUT_SECONDS
      then (Inr (), this\<lparr>confirmedEmail := Some (pendingEmail this),
                         emailConfirmationToken := None,
                         emailConfirmationCompletedAt := Some now\<rparr>)
      else (Inl InvalidOrExpiredToken, this))"

text \<open>
  Modelled from the spec: the phone-number part of the RegistrationValidator (section
  4.2) has no code in the repository's sources at hand. In the spec's words: "scan the
  raw string, keep the first + only if it is the first character, drop all spaces,
  dashes, parentheses, and any other non-digit characters, concatenate remaining digits
  after the optional leading +. If the result does not match the target pattern, emit a
  field error InvalidPhoneNumber and do not persist a partially normalized value". The
  target pattern of the field table is "+ followed by 7-15 digits". The validator's
  result is either the value to persist or the error, never both.
\<close>

definition is_digit :: "char \<Rightarrow> bool" where
  "is_digit c = (c \<in> set ''0123456789'')"

fun normalizePhone :: "string \<Rightarrow> string" where
  "normalizePhone [] = []"
| "normalizePhone (c # cs) =
     (if c = CHR ''+'' then c # filter is_digit cs else filter is_digit (c # cs))"

definition matchesPhonePattern :: "string \<Rightarrow> bool" where
  "matchesPhonePattern s =
     (case s of
        [] \<Rightarrow> False
      | c # ds \<Rightarrow> c = CHR ''+'' \<and> 7 \<le> length ds \<and> length ds \<le> 15 \<and> list_all is_digit ds)"

definition validatePhoneNumber :: "string \<Rightarrow> error + string" where
  "validatePhoneNumber raw =
     (let normalized = normalizePhone raw
      in if matchesPhonePattern normalized then Inr normalized else Inl InvalidPhoneNumber)"

text \<open>
  The shape the claims speak of: an optional leading \<open>+\<close>, then 7 to 15 digits and
  nothing else. Every string of the target pattern has it.
\<close>

definition optionalPlusDigits :: "string \<Rightarrow> bool" where
  "optionalPlusDigits s =
     (let ds = (case s of [] \<Rightarrow> [] | c # cs \<Rightarrow> if c = CHR ''+'' then cs else s)
      in 7 \<le> length ds \<and> length ds \<le> 15 \<and> list_all is_digit ds)"

section \<open>Properties of the entity\<close>

text \<open>
  C3. For every User record, \<open>canLogIn()\<close> returns true if and only if
  \<open>emailConfirmationCompletedAt\<close> is non-null, and the record after the call is the
  record before it.
\<close>

theorem canLogIn_iff_confirmed:
  "fst (canLogIn this) = (\<exists>t. emailConfirmationCompletedAt this = Some t)
   \<and> snd (canLogIn this) = this"
  by (simp add: canLogIn_def)

text \<open>
  C10. The confirmation window \<open>EMAIL_CONFIRMATION_TIMEOUT_SECONDS\<close> is the constant
  259200, the seconds of exactly three days of 24 hours of 3600 seconds.
\<close>

theorem EMAIL_CONFIRMATION_TIMEOUT_SECONDS_three_days:
  "EMAIL_CONFIRMATION_TIMEOUT_SECONDS = 259200
   \<and> EMAIL_CONFIRMATION_TIMEOUT_SECONDS = 3 * (24 * 3600)"
  by (simp add: EMAIL_CONFIRMATION_TIMEOUT_SECONDS_def)

section \<open>Resetting and checking the password\<close>

text \<open>
  C1, as the code has it. \<open>resetPassword\<close> applies no password policy. For every
  \<open>newPassword\<close>, of any length, it never ends with \<open>WeakPassword\<close>; it succeeds
  exactly when \<open>bcrypt.hash\<close> resolves, for a password shorter than 6 characters as
  for a longer one; and when it does not succeed, the record, \<open>passwordHash\<close> and
  \<open>securityOperationPerformedAt\<close> included, is as it was.
\<close>

theorem resetPassword_has_no_password_policy:
  "fst (resetPassword lib now newPassword this) \<noteq> Inl WeakPassword
   \<and> (fst (resetPassword lib now newPassword this) = Inr ())
       = (\<exists>hash. bcrypt_hash lib newPassword SALT_ROUNDS = Inr hash)
   \<and> (fst (resetPassword lib now newPassword this) = Inr ()
       \<or> snd (resetPassword lib now newPassword this) = this)"
  by (simp add: resetPassword_def split: sum.split)

text \<open>
  The theorem at the 5-character password \<open>abc12\<close> of the spec's section 8: the
  reset succeeds.
\<close>

theorem resetPassword_has_no_password_policy_witness:
  "fst (resetPassword (node_bcrypt plain_bindings) 1700000000 ''abc12'' admin_user) = Inr ()
   \<and> fst (resetPassword (node_bcrypt plain_bindings) 1700000000 ''abc12'' admin_user)
       \<noteq> Inl WeakPassword"
  using resetPassword_has_no_password_policy
          [of "node_bcrypt plain_bindings" 1700000000 "''abc12''" admin_user]
  by (simp add: node_bcrypt_def)

text \<open>
  C1 as the spec states it fails at the password of the README's own \<open>addUser.ts\<close>
  command: \<open>admin\<close> has 5 characters, and \<open>resetPassword\<close> succeeds on it, replaces
  \<open>passwordHash\<close> and sets \<open>securityOperationPerformedAt\<close>.
\<close>

theorem resetPassword_short_password_counterexample:
  "length ''admin'' < 6
   \<and> fst (resetPassword (node_bcrypt plain_bindings) 1700000000 ''admin'' admin_user) = Inr ()
   \<and> passwordHash (snd (resetPassword (node_bcrypt plain_bindings) 1700000000 ''admin'' admin_user))
       = Some ''$2b$10$......................admin''
   \<and> passwordHash admin_user = None
   \<and> securityOperationPerformedAt
        (snd (resetPassword (node_bcrypt plain_bindings) 1700000000 ''admin'' admin_user))
       = Some 1700000000
   \<and> securityOperationPerformedAt admin_user = None"
  by (simp add: resetPassword_def node_bcrypt_def plain_bindings_def admin_user_def)

text \<open>
  C2, evaluated on the code. The spec says that \<open>isRightPassword\<close> returns false and
  never throws when \<open>passwordHash\<close> is absent. The method has no guard of its own: on
  a record without a hash it ends with whatever \<open>bcrypt.compare(candidate, null)\<close>
  ends with, and the published package rejects that call. So on every such record and
  for every candidate the method throws
  \<open>Error('data and hash arguments required')\<close> instead of returning false.
\<close>

theorem isRightPassword_null_hash_rejects:
  "fst (isRightPassword lib candidate (this\<lparr>passwordHash := None\<rparr>))
     = (case bcrypt_compare lib candidate None of
          Inl msg \<Rightarrow> Inl (Error msg)
        | Inr match \<Rightarrow> Inr match)
   \<and> isRightPassword (node_bcrypt b) candidate (this\<lparr>passwordHash := None\<rparr>)
       = (Inl (Error ''data and hash arguments required''), this\<lparr>passwordHash := None\<rparr>)"
  by (simp add: isRightPassword_def node_bcrypt_def split: sum.split)

text \<open>
  C4. For every \<open>newPassword\<close> (a valid one in particular), when \<open>resetPassword\<close>
  completes, \<open>passwordHash\<close> is the hash that \<open>bcrypt.hash\<close> computed for
  \<open>newPassword\<close> with the fixed cost \<open>SALT_ROUNDS\<close>, which is 10, and
  \<open>securityOperationPerformedAt\<close> is the time the clock supplied.
\<close>

theorem resetPassword_stores_hash_and_time:
  assumes "bcrypt_hash lib newPassword SALT_ROUNDS = Inr hash"
  shows "fst (resetPassword lib now newPassword this) = Inr ()
         \<and> passwordHash (snd (resetPassword lib now newPassword this)) = Some hash
         \<and> securityOperationPerformedAt (snd (resetPassword lib now newPassword this)) = Some now
         \<and> SALT_ROUNDS = 10"
  using assms by (simp add: resetPassword_def SALT_ROUNDS_def)

theorem resetPassword_stores_hash_and_time_witness:
  "bcrypt_hash (node_bcrypt plain_bindings) ''hunter2'' 10
     = Inr ''$2b$10$......................hunter2''
   \<and> passwordHash (snd (resetPassword (node_bcrypt plain_bindings) 1700000000 ''hunter2'' admin_user))
       = Some ''$2b$10$......................hunter2''
   \<and> securityOperationPerformedAt
        (snd (resetPassword (node_bcrypt plain_bindings) 1700000000 ''hunter2'' admin_user))
       = Some 1700000000"
proof -
  have h: "bcrypt_hash (node_bcrypt plain_bindings) ''hunter2'' SALT_ROUNDS
             = Inr ''$2b$10$......................hunter2''"
    by (simp add: node_bcrypt_def plain_bindings_def)
  have h10: "bcrypt_hash (node_bcrypt plain_bindings) ''hunter2'' 10
               = Inr ''$2b$10$......................hunter2''"
    by (simp add: node_bcrypt_def plain_bindings_def)
  from h10 resetPassword_stores_hash_and_time [OF h, of 1700000000 admin_user]
  show ?thesis by blast
qed

text \<open>
  C9. For every record and every \<open>newPassword\<close>, whether the reset succeeds or not,
  every field other than \<open>passwordHash\<close> and \<open>securityOperationPerformedAt\<close> is
  after \<open>resetPassword\<close> what it was before: \<open>id\<close>, \<open>publicId\<close>,
  \<open>displayName\<close>, \<open>pendingEmail\<close>, \<open>confirmedEmail\<close>,
  \<open>emailConfirmationToken\<close>, \<open>emailConfirmationRequestedAt\<close>,
  \<open>emailConfirmationCompletedAt\<close>, \<open>phoneNumber\<close>, \<open>createdAt\<close>,
  \<open>updatedAt\<close>, and any further property the object carries.
\<close>

theorem resetPassword_frame:
  fixes this :: "'a AccountRecord_scheme"
  shows
  "id' (snd (resetPassword lib now newPassword this)) = id' this
   \<and> publicId (snd (resetPassword lib now newPassword this)) = publicId this
   \<and> displayName (snd (resetPassword lib now newPassword this)) = displayName this
   \<and> pendingEmail (snd (resetPassword lib now newPassword this)) = pendingEmail this
   \<and> confirmedEmail (snd (resetPassword lib now newPassword this)) = confirmedEmail this
   \<and> emailConfirmationToken (snd (resetPassword lib now newPassword this))
       = emailConfirmationToken this
   \<and> emailConfirmationRequestedAt (snd (resetPassword lib now newPassword this))
       = emailConfirmationRequestedAt this
   \<and> emailConfirmationCompletedAt (snd (resetPassword lib now newPassword this))
       = emailConfirmationCompletedAt this
   \<and> phoneNumber (snd (resetPassword lib now newPassword this)) = phoneNumber this
   \<and> createdAt (snd (resetPassword lib now newPassword this)) = createdAt this
   \<and> updatedAt (snd (resetPassword lib now newPassword this)) = updatedAt this
   \<and> AccountRecord.more (snd (resetPassword lib now newPassword this)) = AccountRecord.more this"
  by (simp add: resetPassword_def split: sum.split)

text \<open>
  Whatever the native binding computes, the package gives two passwords that agree on
  their first 72 bytes the same verdict against any stored hash.
\<close>

lemma node_bcrypt_first_72_bytes:
  "take 72 p = take 72 q \<Longrightarrow>
   bcrypt_compare (node_bcrypt b) p hash = bcrypt_compare (node_bcrypt b) q hash"
  by (simp add: node_bcrypt_def)

lemma isRightPassword_first_72_bytes:
  "take 72 p = take 72 q \<Longrightarrow>
   isRightPassword (node_bcrypt b) p this = isRightPassword (node_bcrypt b) q this"
  by (simp add: isRightPassword_def node_bcrypt_def)




section \<open>Confirming the email address\<close>

text \<open>
  C6. For every supplied token and every clock value \<open>now\<close>, the confirmation
  succeeds if and only if the token equals \<open>emailConfirmationToken\<close> and
  \<open>now - emailConfirmationRequestedAt \<le> EMAIL_CONFIRMATION_TIMEOUT_SECONDS\<close>; on
  success it sets \<open>confirmedEmail\<close> to \<open>pendingEmail\<close>, clears the token and sets
  \<open>emailConfirmationCompletedAt\<close> to \<open>now\<close>, changing nothing else; otherwise it
  ends with the one error \<open>InvalidOrExpiredToken\<close> and the record is as it was.
\<close>

theorem confirmEmail_transition:
  "(fst (confirmEmail now token this) = Inr ())
     = (emailConfirmationToken this = Some token
        \<and> now - emailConfirmationRequestedAt this \<le> EMAIL_CONFIRMATION_TIMEOUT_SECONDS)
   \<and> (fst (confirmEmail now token this) = Inr () \<longrightarrow>
        snd (confirmEmail now token this)
          = this\<lparr>confirmedEmail := Some (pendingEmail this),
                 emailConfirmationToken := None,
                 emailConfirmationCompletedAt := Some now\<rparr>)
   \<and> (fst (confirmEmail now token this) \<noteq> Inr () \<longrightarrow>
        confirmEmail now token this = (Inl InvalidOrExpiredToken, this))"
  by (simp add: confirmEmail_def)

text \<open>
  The theorem on the last second of the window, on the first second after it, and on a
  token that differs in its last character.
\<close>

theorem confirmEmail_transition_witness:
  "confirmEmail 1600259200 ''q7RkT2mZx9LpV4cB'' pending_user
     = (Inr (), pending_user\<lparr>confirmedEmail := Some ''nux@example.com'',
                            emailConfirmationToken := None,
                            emailConfirmationCompletedAt := Some 1600259200\<rparr>)
   \<and> confirmEmail 1600259201 ''q7RkT2mZx9LpV4cB'' pending_user
       = (Inl InvalidOrExpiredToken, pending_user)
   \<and> confirmEmail 1600000060 ''q7RkT2mZx9LpV4cC'' pending_user
       = (Inl InvalidOrExpiredToken, pending_user)"
proof -
  have tok: "emailConfirmationToken pending_user = Some ''q7RkT2mZx9LpV4cB''"
    and req: "emailConfirmationRequestedAt pending_user = 1600000000"
    and pend: "pendingEmail pending_user = ''nux@example.com''"
    by (simp_all add: pending_user_def)
  have a: "confirmEmail 1600259200 ''q7RkT2mZx9LpV4cB'' pending_user
     = (Inr (), pending_user\<lparr>confirmedEmail := Some ''nux@example.com'',
                            emailConfirmationToken := None,
                            emailConfirmationCompletedAt := Some 1600259200\<rparr>)"
    using confirmEmail_transition [of 1600259200 "''q7RkT2mZx9LpV4cB''" pending_user]
    by (simp add: tok req pend EMAIL_CONFIRMATION_TIMEOUT_SECONDS_def prod_eq_iff)
  have b: "confirmEmail 1600259201 ''q7RkT2mZx9LpV4cB'' pending_user
       = (Inl InvalidOrExpiredToken, pending_user)"
    using confirmEmail_transition [of 1600259201 "''q7RkT2mZx9LpV4cB''" pending_user]
    by (simp add: tok req EMAIL_CONFIRMATION_TIMEOUT_SECONDS_def)
  have c: "confirmEmail 1600000060 ''q7RkT2mZx9LpV4cC'' pending_user
       = (Inl InvalidOrExpiredToken, pending_user)"
    using confirmEmail_transition [of 1600000060 "''q7RkT2mZx9LpV4cC''" pending_user]
    by (simp add: tok req EMAIL_CONFIRMATION_TIMEOUT_SECONDS_def)
  from a b c show ?thesis by blast
qed

section \<open>Normalizing and validating the phone number\<close>

lemma plus_is_not_digit: "\<not> is_digit (CHR ''+'')"
  by (simp add: is_digit_def)

lemma filter_is_digit_head: "filter is_digit cs = x # xs \<Longrightarrow> is_digit x"
proof -
  assume "filter is_digit cs = x # xs"
  then have "x \<in> set (filter is_digit cs)" by simp
  then show "is_digit x" by simp
qed

lemma normalizePhone_of_digits: "normalizePhone (filter is_digit cs) = filter is_digit cs"
proof (cases "filter is_digit cs")
  case Nil
  then show ?thesis by simp
next
  case (Cons x xs)
  then have "is_digit x" by (rule filter_is_digit_head)
  then have "x \<noteq> CHR ''+''" using plus_is_not_digit by blast
  moreover have "filter is_digit (filter is_digit cs) = filter is_digit cs"
    by simp
  then have "filter is_digit (x # xs) = x # xs"
    unfolding Cons .
  ultimately show ?thesis using Cons by simp
qed

lemma normalizePhone_twice: "normalizePhone (normalizePhone raw) = normalizePhone raw"
proof (cases raw)
  case Nil
  then show ?thesis by simp
next
  case (Cons c cs)
  show ?thesis
  proof (cases "c = CHR ''+''")
    case True
    with Cons show ?thesis by simp
  next
    case False
    with Cons have "normalizePhone raw = filter is_digit raw" by simp
    then show ?thesis by (simp add: normalizePhone_of_digits)
  qed
qed

lemma normalizePhone_fixes_shape:
  assumes "optionalPlusDigits s"
  shows "normalizePhone s = s"
proof (cases s)
  case Nil
  then show ?thesis by simp
next
  case (Cons c cs)
  show ?thesis
  proof (cases "c = CHR ''+''")
    case True
    with assms Cons have "list_all is_digit cs"
      by (simp add: optionalPlusDigits_def)
    then have "filter is_digit cs = cs"
      by (simp add: list_all_iff)
    with True Cons show ?thesis by simp
  next
    case False
    with assms Cons have "list_all is_digit s"
      by (simp add: optionalPlusDigits_def)
    then have "filter is_digit s = s"
      by (simp add: list_all_iff)
    with False Cons show ?thesis by simp
  qed
qed

lemma matches_optional: "matchesPhonePattern s \<Longrightarrow> optionalPlusDigits s"
  by (cases s) (auto simp: optionalPlusDigits_def matchesPhonePattern_def)

lemma matches_digit_count:
  assumes "matchesPhonePattern (normalizePhone raw)"
  shows "7 \<le> length (filter is_digit raw) \<and> length (filter is_digit raw) \<le> 15"
proof (cases raw)
  case Nil
  with assms show ?thesis by (simp add: matchesPhonePattern_def)
next
  case (Cons c cs)
  show ?thesis
  proof (cases "c = CHR ''+''")
    case True
    with assms Cons show ?thesis
      by (simp add: matchesPhonePattern_def plus_is_not_digit)
  next
    case False
    with Cons have n: "normalizePhone raw = filter is_digit raw" by simp
    from assms obtain ds where "normalizePhone raw = CHR ''+'' # ds"
      by (auto simp: matchesPhonePattern_def split: list.splits)
    with n have "is_digit (CHR ''+'')"
      using filter_is_digit_head by metis
    with plus_is_not_digit show ?thesis by blast
  qed
qed

text \<open>
  C8. Normalizing is idempotent: for every raw string, normalizing its normalized form
  gives that form again; and a string that already is an optional \<open>+\<close> followed by 7
  to 15 digits is returned as it is.
\<close>

theorem normalizePhone_idempotent:
  "normalizePhone (normalizePhone raw) = normalizePhone raw
   \<and> (optionalPlusDigits s \<longrightarrow> normalizePhone s = s)"
  using normalizePhone_twice normalizePhone_fixes_shape by blast

text \<open>
  The theorem on the registration example of the spec's section 8.
\<close>

theorem normalizePhone_idempotent_witness:
  "optionalPlusDigits ''+15551231234'' \<and> normalizePhone ''+15551231234'' = ''+15551231234''
   \<and> normalizePhone (normalizePhone ''+1 (555) 123-1234'') = normalizePhone ''+1 (555) 123-1234''"
  using normalizePhone_idempotent [of "''+1 (555) 123-1234''" "''+15551231234''"]
  by (simp add: optionalPlusDigits_def is_digit_def)

text \<open>
  C7. For every raw phone-number input, the validator either gives the normalized
  string to persist, which is an optional leading \<open>+\<close> followed by 7 to 15 digits and
  nothing else, or the field error \<open>InvalidPhoneNumber\<close> and no value at all; and an
  input with fewer than 7 or more than 15 digits is always rejected.
\<close>

theorem validatePhoneNumber_canonical_or_rejected:
  "(case validatePhoneNumber raw of
      Inr persisted \<Rightarrow> persisted = normalizePhone raw \<and> optionalPlusDigits persisted
    | Inl e \<Rightarrow> e = InvalidPhoneNumber)
   \<and> (length (filter is_digit raw) < 7 \<or> 15 < length (filter is_digit raw)
        \<longrightarrow> validatePhoneNumber raw = Inl InvalidPhoneNumber)"
  using matches_optional [of "normalizePhone raw"] matches_digit_count [of raw]
  by (auto simp: validatePhoneNumber_def Let_def)

text \<open>
  The theorem on the registration example of the spec's section 8, on an input with 4
  digits and on one with 16.
\<close>

theorem validatePhoneNumber_canonical_or_rejected_witness:
  "validatePhoneNumber ''+1 (555) 123-1234'' = Inr ''+15551231234''
   \<and> optionalPlusDigits ''+15551231234''
   \<and> length (filter is_digit ''+1 555'') < 7
   \<and> validatePhoneNumber ''+1 555'' = Inl InvalidPhoneNumber
   \<and> 15 < length (filter is_digit ''+1234567890123456'')
   \<and> validatePhoneNumber ''+1234567890123456'' = Inl InvalidPhoneNumber"
  using validatePhoneNumber_canonical_or_rejected [of "''+1 (555) 123-1234''"]
        validatePhoneNumber_canonical_or_rejected [of "''+1 555''"]
        validatePhoneNumber_canonical_or_rejected [of "''+1234567890123456''"]
  by (simp add: validatePhoneNumber_def matchesPhonePattern_def optionalPlusDigits_def is_digit_def)

end
